theory Spec2Isabelle
  imports Main "HOL-Library.Sublist"
begin

section \<open>Values, errors and the outside world\<close>

text \<open>
  The program is Python, so a field of a task and an argument of a method may hold any
  value. The values that can reach the program are those of the JSON data model, which is
  what \<^verbatim>\<open>json.load\<close> returns and \<^verbatim>\<open>json.dump\<close> accepts: \<^verbatim>\<open>None\<close>, booleans, integers,
  strings, lists and dictionaries with string keys. Floating-point numbers are left out:
  the program does no arithmetic on a field. A dictionary is an association list read
  with \<open>map_of\<close>.
\<close>

datatype pyval =
    PNone
  | PBool bool
  | PInt int
  | PStr string
  | PList "pyval list"
  | PDict "(string \<times> pyval) list"

text \<open>Python's truth value of an object, as taken by \<^verbatim>\<open>if x:\<close> and \<^verbatim>\<open>not x\<close>.\<close>

fun truthy :: "pyval \<Rightarrow> bool" where
  "truthy PNone = False"
| "truthy (PBool b) = b"
| "truthy (PInt i) = (i \<noteq> 0)"
| "truthy (PStr s) = (s \<noteq> [])"
| "truthy (PList xs) = (xs \<noteq> [])"
| "truthy (PDict kvs) = (kvs \<noteq> [])"

text \<open>The exceptions that the code under study and the library calls it makes can raise.\<close>

datatype error =
    JSONDecodeError
  | UnicodeDecodeError
  | RecursionError
  | ValueError
  | KeyError string
  | TypeError

text \<open>
  \<^verbatim>\<open>data[key]\<close> with a string key: a dictionary without the key raises \<^verbatim>\<open>KeyError\<close>, and
  every other value raises \<^verbatim>\<open>TypeError\<close> (a list or a string wants an integer index, the
  rest cannot be subscripted).
\<close>

fun subscript :: "pyval \<Rightarrow> string \<Rightarrow> error + pyval" where
  "subscript (PDict kvs) k = (case map_of kvs k of None \<Rightarrow> Inl (KeyError k) | Some v \<Rightarrow> Inr v)"
| "subscript _ k = Inl TypeError"

text \<open>
  \<^verbatim>\<open>for x in data\<close>: a list yields its elements, a dictionary its keys, a string its
  characters as one-character strings; the other values are not iterable.
\<close>

fun py_iter :: "pyval \<Rightarrow> error + pyval list" where
  "py_iter (PList xs) = Inr xs"
| "py_iter (PDict kvs) = Inr (map (\<lambda>kv. PStr (fst kv)) kvs)"
| "py_iter (PStr s) = Inr (map (\<lambda>c. PStr [c]) s)"
| "py_iter _ = Inl TypeError"

text \<open>
  The content of a file is its bytes, sorted by what reading it in text mode and
  \<^verbatim>\<open>json.load\<close> make of them:
  \<^item> bytes that are not text in the encoding of the file raise \<^verbatim>\<open>UnicodeDecodeError\<close> when
    read;
  \<^item> text that is not JSON raises \<^verbatim>\<open>json.JSONDecodeError\<close>;
  \<^item> JSON text nested deeper than the interpreter recurses raises \<^verbatim>\<open>RecursionError\<close>;
  \<^item> JSON text with an integer literal of more digits than the interpreter converts raises
    \<^verbatim>\<open>ValueError\<close>;
  \<^item> any other JSON text decodes to a value.

  Of the four exceptions only \<^verbatim>\<open>json.JSONDecodeError\<close> matches a handler
  \<^verbatim>\<open>except json.JSONDecodeError\<close>: it is a subclass of \<^verbatim>\<open>ValueError\<close>, as
  \<^verbatim>\<open>UnicodeDecodeError\<close> is, and not the other way round. \<^verbatim>\<open>json.dump\<close> writes text
  that decodes to the value dumped.
\<close>

datatype file_content =
    Undecodable string
  | Malformed string
  | Overdeep string
  | Overlong string
  | Json pyval

fun json_load :: "file_content \<Rightarrow> error + pyval" where
  "json_load (Undecodable bytes) = Inl UnicodeDecodeError"
| "json_load (Malformed txt) = Inl JSONDecodeError"
| "json_load (Overdeep txt) = Inl RecursionError"
| "json_load (Overlong txt) = Inl ValueError"
| "json_load (Json v) = Inr v"

fun json_dump :: "pyval \<Rightarrow> file_content" where
  "json_dump v = Json v"

text \<open>
  The world outside the object: the files by name, the lines printed so far, and the
  reading of \<^verbatim>\<open>datetime.now().strftime(...)\<close>. Opening and writing a file always
  succeed here (no permissions, no full disk).
\<close>

record world =
  files :: "string \<rightharpoonup> file_content"
  stdout :: "string list"
  clock :: string

section \<open>Task\<close>

record task =
  title :: pyval
  description :: pyval
  created_date :: pyval
  due_date :: pyval
  completed :: pyval

text \<open>\<^verbatim>\<open>Task.__init__\<close>; \<open>now\<close> is the clock reading at the call.\<close>

definition Task_init :: "string \<Rightarrow> pyval \<Rightarrow> pyval \<Rightarrow> pyval \<Rightarrow> pyval \<Rightarrow> task" where
  "Task_init now title' description' due_date' completed' =
     \<lparr>title = title', description = description', created_date = PStr now,
      due_date = due_date', completed = completed'\<rparr>"

definition to_dict :: "task \<Rightarrow> (string \<times> pyval) list" where
  "to_dict self =
     [(''title'', title self),
      (''description'', description self),
      (''created_date'', created_date self),
      (''due_date'', due_date self),
      (''completed'', completed self)]"

text \<open>
  \<^verbatim>\<open>Task.from_dict\<close>: the three constructor arguments are read left to right, the
  constructor stamps the clock and sets \<^verbatim>\<open>completed\<close> to its default, then the two stored
  fields overwrite both.
\<close>

definition from_dict :: "string \<Rightarrow> pyval \<Rightarrow> error + task" where
  "from_dict now data =
     (case subscript data ''title'' of Inl e \<Rightarrow> Inl e | Inr a \<Rightarrow>
     (case subscript data ''description'' of Inl e \<Rightarrow> Inl e | Inr b \<Rightarrow>
     (case subscript data ''due_date'' of Inl e \<Rightarrow> Inl e | Inr c \<Rightarrow>
       (let task = Task_init now a b c (PBool False) in
     (case subscript data ''created_date'' of Inl e \<Rightarrow> Inl e | Inr d \<Rightarrow>
       (let task = task\<lparr>created_date := d\<rparr> in
     (case subscript data ''completed'' of Inl e \<Rightarrow> Inl e | Inr f \<Rightarrow>
       (let task = task\<lparr>completed := f\<rparr> in
        Inr task))))))))"

section \<open>TodoList\<close>

record todolist =
  filename :: string
  tasks :: "task list"

text \<open>
  The comprehension \<^verbatim>\<open>[Task.from_dict(task_data) for task_data in data]\<close> over the
  elements that the iteration yields: the first exception ends it.
\<close>

fun from_dicts :: "string \<Rightarrow> pyval list \<Rightarrow> error + task list" where
  "from_dicts now [] = Inr []"
| "from_dicts now (task_data # rest) =
     (case from_dict now task_data of Inl e \<Rightarrow> Inl e | Inr t \<Rightarrow>
     (case from_dicts now rest of Inl e \<Rightarrow> Inl e | Inr ts \<Rightarrow> Inr (t # ts)))"

text \<open>The body of the \<^verbatim>\<open>try\<close> in \<^verbatim>\<open>load_tasks\<close>, up to the value assigned to \<^verbatim>\<open>self.tasks\<close>.\<close>

definition load_try :: "string \<Rightarrow> file_content \<Rightarrow> error + task list" where
  "load_try now c =
     (case json_load c of Inl e \<Rightarrow> Inl e | Inr data \<Rightarrow>
     (case py_iter data of Inl e \<Rightarrow> Inl e | Inr xs \<Rightarrow> from_dicts now xs))"

text \<open>
  \<^verbatim>\<open>load_tasks\<close>: the only handler is \<^verbatim>\<open>except json.JSONDecodeError\<close>; any other exception
  of the body leaves the method.
\<close>

definition load_tasks :: "todolist \<Rightarrow> world \<Rightarrow> (error + todolist) \<times> world" where
  "load_tasks self w =
     (case files w (filename self) of
        Some c \<Rightarrow>
          (case load_try (clock w) c of
             Inr ts \<Rightarrow> (Inr (self\<lparr>tasks := ts\<rparr>), w)
           | Inl JSONDecodeError \<Rightarrow>
               (Inr (self\<lparr>tasks := []\<rparr>),
                w\<lparr>stdout := stdout w @ [''Error reading file. Starting with empty task list.'']\<rparr>)
           | Inl e \<Rightarrow> (Inl e, w))
      | None \<Rightarrow> (Inr (self\<lparr>tasks := []\<rparr>), w))"

text \<open>\<^verbatim>\<open>TodoList.__init__\<close>: an exception of \<^verbatim>\<open>load_tasks\<close> leaves the constructor too.\<close>

definition TodoList_init :: "string \<Rightarrow> world \<Rightarrow> (error + todolist) \<times> world" where
  "TodoList_init filename' w = load_tasks \<lparr>filename = filename', tasks = []\<rparr> w"

text \<open>
  The methods take the object and the world and return both next to their result. A
  default argument of the source (\<^verbatim>\<open>description=""\<close>, \<^verbatim>\<open>due_date=None\<close>, \<^verbatim>\<open>title=None\<close>) is
  passed by the caller as that value. Every task of the sequence is an object of its own
  (made by \<^verbatim>\<open>add_task\<close> or by \<^verbatim>\<open>from_dict\<close>), so the sequence is a list of values.
\<close>

definition save_tasks :: "todolist \<Rightarrow> world \<Rightarrow> world" where
  "save_tasks self w =
     (let data = map (\<lambda>task. PDict (to_dict task)) (tasks self)
      in w\<lparr>files := (files w)(filename self \<mapsto> json_dump (PList data))\<rparr>)"

definition add_task :: "pyval \<Rightarrow> pyval \<Rightarrow> pyval \<Rightarrow> todolist \<Rightarrow> world \<Rightarrow> task \<times> todolist \<times> world" where
  "add_task title' description' due_date' self w =
     (let task = Task_init (clock w) title' description' due_date' (PBool False);
          self = self\<lparr>tasks := tasks self @ [task]\<rparr>
      in (task, self, save_tasks self w))"

text \<open>
  The index is a Python integer. Inside the bounds check \<^verbatim>\<open>self.tasks[index]\<close> is the
  element at position \<open>nat index\<close>.
\<close>

definition complete_task :: "int \<Rightarrow> todolist \<Rightarrow> world \<Rightarrow> bool \<times> todolist \<times> world" where
  "complete_task index self w =
     (if 0 \<le> index \<and> index < int (length (tasks self)) then
        let self = self\<lparr>tasks := (tasks self)[nat index :=
                      (tasks self ! nat index)\<lparr>completed := PBool True\<rparr>]\<rparr>
        in (True, self, save_tasks self w)
      else (False, self, w))"

definition delete_task :: "int \<Rightarrow> todolist \<Rightarrow> world \<Rightarrow> bool \<times> todolist \<times> world" where
  "delete_task index self w =
     (if 0 \<le> index \<and> index < int (length (tasks self)) then
        let self = self\<lparr>tasks :=
                      take (nat index) (tasks self) @ drop (Suc (nat index)) (tasks self)\<rparr>
        in (True, self, save_tasks self w)
      else (False, self, w))"

definition get_tasks :: "todolist \<Rightarrow> bool \<Rightarrow> task list" where
  "get_tasks self include_completed =
     (if include_completed then tasks self
      else filter (\<lambda>task. \<not> truthy (completed task)) (tasks self))"

definition update_task ::
  "int \<Rightarrow> pyval \<Rightarrow> pyval \<Rightarrow> pyval \<Rightarrow> todolist \<Rightarrow> world \<Rightarrow> bool \<times> todolist \<times> world" where
  "update_task index title' description' due_date' self w =
     (if 0 \<le> index \<and> index < int (length (tasks self)) then
        let task = tasks self ! nat index;
            task = (if truthy title' then task\<lparr>title := title'\<rparr> else task);
            task = (if truthy description' then task\<lparr>description := description'\<rparr> else task);
            task = (if truthy due_date' then task\<lparr>due_date := due_date'\<rparr> else task);
            self = self\<lparr>tasks := (tasks self)[nat index := task]\<rparr>
        in (True, self, save_tasks self w)
      else (False, self, w))"

section \<open>Notions used to state the properties\<close>

text \<open>The keys that \<^verbatim>\<open>from_dict\<close> reads, in the order in which it reads them.\<close>

definition required_keys :: "string list" where
  "required_keys = [''title'', ''description'', ''due_date'', ''created_date'', ''completed'']"

definition has_required_keys :: "(string \<times> pyval) list \<Rightarrow> bool" where
  "has_required_keys d = list_all (\<lambda>k. map_of d k \<noteq> None) required_keys"

text \<open>The dictionary \<open>d\<close> stores the five fields of the task \<open>t\<close>.\<close>

definition stores :: "(string \<times> pyval) list \<Rightarrow> task \<Rightarrow> bool" where
  "stores d t =
     (map_of d ''title'' = Some (title t) \<and>
      map_of d ''description'' = Some (description t) \<and>
      map_of d ''created_date'' = Some (created_date t) \<and>
      map_of d ''due_date'' = Some (due_date t) \<and>
      map_of d ''completed'' = Some (completed t))"

text \<open>
  The content of the backing file that holds a sequence of tasks: the list of their
  dictionaries, in order.
\<close>

definition saved :: "task list \<Rightarrow> file_content" where
  "saved ts = Json (PList (map (\<lambda>task. PDict (to_dict task)) ts))"

text \<open>The backing file of the object holds exactly the object's sequence.\<close>

definition in_sync :: "todolist \<Rightarrow> world \<Rightarrow> bool" where
  "in_sync self w = (files w (filename self) = Some (saved (tasks self)))"

text \<open>An argument of \<^verbatim>\<open>update_task\<close> as its callers pass it: text, or \<^verbatim>\<open>None\<close> for absent.\<close>

fun text_or_absent :: "pyval \<Rightarrow> bool" where
  "text_or_absent PNone = True"
| "text_or_absent (PStr s) = True"
| "text_or_absent _ = False"

section \<open>Serialisation\<close>

lemma from_dict_present:
  assumes "map_of d ''title'' = Some a" "map_of d ''description'' = Some b"
    "map_of d ''due_date'' = Some c" "map_of d ''created_date'' = Some cd"
    "map_of d ''completed'' = Some f"
  shows "from_dict now (PDict d) =
     Inr \<lparr>title = a, description = b, created_date = cd, due_date = c, completed = f\<rparr>"
  using assms by (simp add: from_dict_def Task_init_def)

lemma stores_to_dict: "stores (to_dict t) t"
  by (simp add: stores_def to_dict_def)

lemma from_dict_stores:
  assumes "stores d t"
  shows "from_dict now (PDict d) = Inr t"
proof -
  from assms have "from_dict now (PDict d) =
      Inr \<lparr>title = title t, description = description t, created_date = created_date t,
           due_date = due_date t, completed = completed t\<rparr>"
    by (intro from_dict_present) (simp_all add: stores_def)
  then show ?thesis by simp
qed

text \<open>
  Claim C2. Reading back the dictionary of a task gives the task itself, all five fields
  alike, whatever the clock shows when it is read back: \<^verbatim>\<open>created_date\<close> and \<^verbatim>\<open>completed\<close>
  are the stored ones, not fresh ones.
\<close>

theorem from_dict_to_dict: "from_dict now (PDict (to_dict t)) = Inr t"
  by (rule from_dict_stores) (rule stores_to_dict)

lemma from_dicts_to_dict: "from_dicts now (map (\<lambda>task. PDict (to_dict task)) ts) = Inr ts"
  by (induction ts) (simp_all add: from_dict_stores [OF stores_to_dict])

lemma load_try_saved: "load_try now (saved ts) = Inr ts"
  by (simp add: load_try_def saved_def from_dicts_to_dict)

text \<open>A file that is in sync loads back to the sequence of the object, silently.\<close>

lemma in_sync_load:
  assumes "in_sync self w"
  shows "load_tasks self w = (Inr self, w)"
  using assms by (simp add: in_sync_def load_tasks_def load_try_saved)

section \<open>Index bounds\<close>

text \<open>
  Claim C1. With an index outside \<open>[0, len(tasks))\<close>, negative ones included,
  \<^verbatim>\<open>complete_task\<close>, \<^verbatim>\<open>delete_task\<close> and \<^verbatim>\<open>update_task\<close> return \<^verbatim>\<open>False\<close> and leave the object
  and the world (the backing file with it) as they were. None of the three has a path
  that raises. An empty store has no index in range, so index 0 is rejected there.
\<close>

theorem out_of_range_rejected:
  assumes "index < 0 \<or> int (length (tasks self)) \<le> index"
  shows "complete_task index self w = (False, self, w) \<and>
         delete_task index self w = (False, self, w) \<and>
         update_task index title' description' due_date' self w = (False, self, w)"
  using assms by (auto simp add: complete_task_def delete_task_def update_task_def)

theorem out_of_range_rejected_witness:
  "complete_task 0 \<lparr>filename = ''todo.json'', tasks = []\<rparr>
       \<lparr>files = Map.empty, stdout = [], clock = ''2024-01-01 09:00:00''\<rparr> =
     (False, \<lparr>filename = ''todo.json'', tasks = []\<rparr>,
      \<lparr>files = Map.empty, stdout = [], clock = ''2024-01-01 09:00:00''\<rparr>) \<and>
   delete_task 0 \<lparr>filename = ''todo.json'', tasks = []\<rparr>
       \<lparr>files = Map.empty, stdout = [], clock = ''2024-01-01 09:00:00''\<rparr> =
     (False, \<lparr>filename = ''todo.json'', tasks = []\<rparr>,
      \<lparr>files = Map.empty, stdout = [], clock = ''2024-01-01 09:00:00''\<rparr>) \<and>
   update_task 0 (PStr ''Buy milk'') PNone (PStr ''2024-01-02'')
       \<lparr>filename = ''todo.json'', tasks = []\<rparr>
       \<lparr>files = Map.empty, stdout = [], clock = ''2024-01-01 09:00:00''\<rparr> =
     (False, \<lparr>filename = ''todo.json'', tasks = []\<rparr>,
      \<lparr>files = Map.empty, stdout = [], clock = ''2024-01-01 09:00:00''\<rparr>)"
  using out_of_range_rejected [of 0 "\<lparr>filename = ''todo.json'', tasks = []\<rparr>"
      "\<lparr>files = Map.empty, stdout = [], clock = ''2024-01-01 09:00:00''\<rparr>"
      "PStr ''Buy milk''" PNone "PStr ''2024-01-02''"]
  by simp

section \<open>Loading\<close>

text \<open>
  Constructing a store whose backing file does not exist gives the empty sequence and
  prints nothing. When the file holds text that is not JSON, the constructor returns
  normally with the empty sequence, one line is printed, and every file is as it was, the
  rejected text included.
\<close>

lemma load_missing_or_malformed:
  "(files w f = None \<longrightarrow>
      TodoList_init f w = (Inr \<lparr>filename = f, tasks = []\<rparr>, w)) \<and>
   (files w f = Some (Malformed txt) \<longrightarrow>
      TodoList_init f w =
        (Inr \<lparr>filename = f, tasks = []\<rparr>,
         w\<lparr>stdout := stdout w @ [''Error reading file. Starting with empty task list.'']\<rparr>) \<and>
      files (snd (TodoList_init f w)) = files w \<and>
      files (snd (TodoList_init f w)) f = Some (Malformed txt))"
  by (simp add: TodoList_init_def load_tasks_def load_try_def)

text \<open>
  Every other exception of reading and decoding the file leaves the constructor: nothing
  is printed, no store is built.
\<close>

lemma load_other_error_escapes:
  assumes "files w f = Some c" and "json_load c = Inl e" and "e \<noteq> JSONDecodeError"
  shows "TodoList_init f w = (Inl e, w)"
  using assms by (cases e) (simp_all add: TodoList_init_def load_tasks_def load_try_def)

text \<open>
  Claim C4, at a backing file that holds the one byte \<open>0xFF\<close>, which is not text, and at one
  that holds 2000 opening brackets: both files exist and hold no structured data, but the
  constructor does not fall back to the empty sequence and prints nothing. Reading the
  first raises \<^verbatim>\<open>UnicodeDecodeError\<close>, decoding the second raises \<^verbatim>\<open>RecursionError\<close>, and
  \<^verbatim>\<open>load_tasks\<close> handles neither, so the exception leaves the constructor.
\<close>

theorem load_unreadable_escapes:
  "TodoList_init ''todo.json''
     \<lparr>files = [''todo.json'' \<mapsto> Undecodable [CHR 0xFF]], stdout = [],
      clock = ''2024-03-05 10:00:00''\<rparr> =
   (Inl UnicodeDecodeError,
    \<lparr>files = [''todo.json'' \<mapsto> Undecodable [CHR 0xFF]], stdout = [],
     clock = ''2024-03-05 10:00:00''\<rparr>) \<and>
   TodoList_init ''todo.json''
     \<lparr>files = [''todo.json'' \<mapsto> Overdeep (replicate 2000 CHR ''['')], stdout = [],
      clock = ''2024-03-05 10:00:00''\<rparr> =
   (Inl RecursionError,
    \<lparr>files = [''todo.json'' \<mapsto> Overdeep (replicate 2000 CHR ''['')], stdout = [],
     clock = ''2024-03-05 10:00:00''\<rparr>)"
  by (simp add: TodoList_init_def load_tasks_def load_try_def)

lemma from_dict_missing:
  assumes "map_of d k = None" "k \<in> set required_keys"
  shows "\<exists>k'. from_dict now (PDict d) = Inl (KeyError k')"
  using assms by (auto simp add: from_dict_def required_keys_def split: option.splits)

lemma from_dict_not_decode_error: "from_dict now x \<noteq> Inl JSONDecodeError"
  by (cases x) (auto simp add: from_dict_def split: option.splits sum.splits)

lemma from_dicts_not_decode_error: "from_dicts now xs \<noteq> Inl JSONDecodeError"
  by (induction xs) (auto simp add: from_dict_not_decode_error split: sum.splits)

lemma from_dicts_fails:
  assumes "x \<in> set xs" "from_dict now x = Inl e"
  shows "\<exists>e'. from_dicts now xs = Inl e'"
  using assms by (induction xs) (auto split: sum.splits)

text \<open>
  A well-formed array in which some record lacks a key that \<^verbatim>\<open>from_dict\<close> reads: the
  exception is none that \<^verbatim>\<open>load_tasks\<close> handles, so it leaves the constructor, nothing is
  printed and no store is built.
\<close>

lemma load_missing_key_escapes:
  assumes "files w f = Some (Json (PList xs))" "PDict d \<in> set xs"
    "map_of d k = None" "k \<in> set required_keys"
  shows "\<exists>e. TodoList_init f w = (Inl e, w)"
proof -
  from from_dict_missing [OF assms(3,4)] obtain k' where
    "from_dict (clock w) (PDict d) = Inl (KeyError k')" by blast
  from from_dicts_fails [OF assms(2) this] obtain e where e: "from_dicts (clock w) xs = Inl e"
    by blast
  with from_dicts_not_decode_error [of "clock w" xs] have "e \<noteq> JSONDecodeError" by auto
  with e assms(1) show ?thesis
    by (cases e) (simp_all add: TodoList_init_def load_tasks_def load_try_def)
qed

text \<open>
  Claim C3, at a file that is a well-formed array of one record without the key
  \<^verbatim>\<open>completed\<close>: \<^verbatim>\<open>from_dict\<close> fails with \<^verbatim>\<open>KeyError\<close>, as the claim says, but the
  constructor does not fall back to the empty sequence: the \<^verbatim>\<open>KeyError\<close> leaves it.
\<close>

theorem load_record_without_key:
  "from_dict ''2024-03-05 10:00:00''
     (PDict [(''title'', PStr ''Buy milk''), (''description'', PStr ''''),
             (''created_date'', PStr ''2024-01-01 09:00:00''), (''due_date'', PNone)]) =
     Inl (KeyError ''completed'') \<and>
   TodoList_init ''todo.json''
     \<lparr>files = [''todo.json'' \<mapsto> Json (PList [PDict
         [(''title'', PStr ''Buy milk''), (''description'', PStr ''''),
          (''created_date'', PStr ''2024-01-01 09:00:00''), (''due_date'', PNone)]])],
      stdout = [], clock = ''2024-03-05 10:00:00''\<rparr> =
   (Inl (KeyError ''completed''),
     \<lparr>files = [''todo.json'' \<mapsto> Json (PList [PDict
         [(''title'', PStr ''Buy milk''), (''description'', PStr ''''),
          (''created_date'', PStr ''2024-01-01 09:00:00''), (''due_date'', PNone)]])],
      stdout = [], clock = ''2024-03-05 10:00:00''\<rparr>)"
  by (simp add: TodoList_init_def load_tasks_def load_try_def from_dict_def Task_init_def)

lemma from_dicts_present:
  assumes "list_all has_required_keys ds"
  shows "\<exists>ts. from_dicts now (map PDict ds) = Inr ts \<and> list_all2 stores ds ts"
  using assms
proof (induction ds)
  case Nil
  then show ?case by simp
next
  case (Cons d ds)
  from Cons.prems have "has_required_keys d" by simp
  then obtain a b c cd f where k: "map_of d ''title'' = Some a" "map_of d ''description'' = Some b"
    "map_of d ''due_date'' = Some c" "map_of d ''created_date'' = Some cd"
    "map_of d ''completed'' = Some f"
    by (auto simp add: has_required_keys_def required_keys_def)
  let ?t = "\<lparr>title = a, description = b, created_date = cd, due_date = c, completed = f\<rparr>"
  from k have st: "stores d ?t" by (simp add: stores_def)
  from Cons obtain ts where ts: "from_dicts now (map PDict ds) = Inr ts" "list_all2 stores ds ts"
    by auto
  from ts(1) have "from_dicts now (map PDict (d # ds)) = Inr (?t # ts)"
    by (simp add: from_dict_present [OF k])
  moreover from st ts(2) have "list_all2 stores (d # ds) (?t # ts)" by simp
  ultimately show ?case by blast
qed

text \<open>
  Claim C5 as stated fails: a record with the four other keys and no key \<^verbatim>\<open>due_date\<close> is
  rejected with \<^verbatim>\<open>KeyError\<close>, by \<^verbatim>\<open>from_dict\<close> and so by the constructor.
\<close>

theorem due_date_key_absent_rejected:
  "from_dict ''2024-03-05 10:00:00''
     (PDict [(''title'', PStr ''Buy milk''), (''description'', PStr ''''),
             (''created_date'', PStr ''2024-01-01 09:00:00''), (''completed'', PBool False)]) =
     Inl (KeyError ''due_date'') \<and>
   fst (TodoList_init ''todo.json''
     \<lparr>files = [''todo.json'' \<mapsto> Json (PList [PDict
         [(''title'', PStr ''Buy milk''), (''description'', PStr ''''),
          (''created_date'', PStr ''2024-01-01 09:00:00''), (''completed'', PBool False)]])],
      stdout = [], clock = ''2024-03-05 10:00:00''\<rparr>) = Inl (KeyError ''due_date'')"
  by (simp add: TodoList_init_def load_tasks_def load_try_def from_dict_def Task_init_def)

text \<open>
  Claim C5, amended. When every record of the array has the five keys, \<^verbatim>\<open>due_date\<close> among
  them, the constructor succeeds silently and the tasks are the records in file order,
  each field being the stored value: a \<^verbatim>\<open>due_date\<close> stored as text is that text, one stored
  as null is \<^verbatim>\<open>None\<close>, which is how a task without a due date is held.
\<close>

theorem load_accepts_complete_records:
  assumes "files w f = Some (Json (PList (map PDict ds)))"
    and "list_all has_required_keys ds"
  shows "\<exists>ts. TodoList_init f w = (Inr \<lparr>filename = f, tasks = ts\<rparr>, w) \<and>
              list_all2 stores ds ts"
proof -
  from from_dicts_present [OF assms(2)] obtain ts where
    ts: "from_dicts (clock w) (map PDict ds) = Inr ts" "list_all2 stores ds ts"
    by blast
  from ts(1) assms(1) have "TodoList_init f w = (Inr \<lparr>filename = f, tasks = ts\<rparr>, w)"
    by (simp add: TodoList_init_def load_tasks_def load_try_def)
  with ts(2) show ?thesis by blast
qed

theorem load_accepts_complete_records_witness:
  "\<exists>ts. TodoList_init ''todo.json''
     \<lparr>files = [''todo.json'' \<mapsto> Json (PList (map PDict
        [[(''title'', PStr ''Buy milk''), (''description'', PStr ''''),
          (''created_date'', PStr ''2024-01-01 09:00:00''), (''due_date'', PNone),
          (''completed'', PBool True)],
         [(''title'', PStr ''Pay bills''), (''description'', PStr ''rent''),
          (''created_date'', PStr ''2024-01-01 09:05:00''), (''due_date'', PStr ''2024-02-01''),
          (''completed'', PBool False)]]))],
      stdout = [], clock = ''2024-03-05 10:00:00''\<rparr> =
    (Inr \<lparr>filename = ''todo.json'', tasks = ts\<rparr>,
     \<lparr>files = [''todo.json'' \<mapsto> Json (PList (map PDict
        [[(''title'', PStr ''Buy milk''), (''description'', PStr ''''),
          (''created_date'', PStr ''2024-01-01 09:00:00''), (''due_date'', PNone),
          (''completed'', PBool True)],
         [(''title'', PStr ''Pay bills''), (''description'', PStr ''rent''),
          (''created_date'', PStr ''2024-01-01 09:05:00''), (''due_date'', PStr ''2024-02-01''),
          (''completed'', PBool False)]]))],
      stdout = [], clock = ''2024-03-05 10:00:00''\<rparr>) \<and>
    map due_date ts = [PNone, PStr ''2024-02-01'']"
proof -
  define d1 where "d1 = [(''title'', PStr ''Buy milk''), (''description'', PStr ''''),
          (''created_date'', PStr ''2024-01-01 09:00:00''), (''due_date'', PNone),
          (''completed'', PBool True)]"
  define d2 where "d2 = [(''title'', PStr ''Pay bills''), (''description'', PStr ''rent''),
          (''created_date'', PStr ''2024-01-01 09:05:00''), (''due_date'', PStr ''2024-02-01''),
          (''completed'', PBool False)]"
  define w where "w = \<lparr>files = [''todo.json'' \<mapsto> Json (PList (map PDict [d1, d2]))],
      stdout = [], clock = ''2024-03-05 10:00:00''\<rparr>"
  have 1: "files w ''todo.json'' = Some (Json (PList (map PDict [d1, d2])))"
    by (simp add: w_def)
  have "has_required_keys d1" "has_required_keys d2"
    by (simp_all add: d1_def d2_def has_required_keys_def required_keys_def)
  then have 2: "list_all has_required_keys [d1, d2]"
    by simp
  from load_accepts_complete_records [OF 1 2] obtain ts where
    ts: "TodoList_init ''todo.json'' w = (Inr \<lparr>filename = ''todo.json'', tasks = ts\<rparr>, w)"
      and st: "list_all2 stores [d1, d2] ts"
    by blast
  from st obtain t1 t2 where t: "ts = [t1, t2]" "stores d1 t1" "stores d2 t2"
    by (auto simp only: list_all2_Cons1 list_all2_Nil)
  from t(2) have "due_date t1 = PNone"
    by (simp add: stores_def d1_def)
  moreover from t(3) have "due_date t2 = PStr ''2024-02-01''"
    by (simp add: stores_def d2_def)
  ultimately have "map due_date ts = [PNone, PStr ''2024-02-01'']"
    using t(1) by simp
  with ts have "\<exists>ts. TodoList_init ''todo.json'' w =
      (Inr \<lparr>filename = ''todo.json'', tasks = ts\<rparr>, w) \<and>
      map due_date ts = [PNone, PStr ''2024-02-01'']"
    by (intro exI conjI)
  then show ?thesis
    unfolding w_def d1_def d2_def .
qed

section \<open>Mutations\<close>

lemma save_tasks_saved:
  "save_tasks self w = w\<lparr>files := (files w)(filename self \<mapsto> saved (tasks self))\<rparr>"
  by (simp add: save_tasks_def saved_def)

lemma truthy_text_or_absent:
  assumes "text_or_absent v"
  shows "truthy v \<longleftrightarrow> \<not> (v = PNone \<or> v = PStr '''')"
  using assms by (cases v) simp_all

text \<open>
  Claim C6. In a store holding \<open>[A, B, C]\<close>, \<^verbatim>\<open>delete_task(0)\<close> succeeds and leaves
  \<open>[B, C]\<close>; \<^verbatim>\<open>complete_task(0)\<close> on the result succeeds and sets the flag of \<open>B\<close>, which now
  stands at index 0, while \<open>C\<close> is as it was and \<open>A\<close> is gone.
\<close>

theorem delete_shifts_then_complete:
  assumes "tasks self = [A, B, C]"
  shows "(case delete_task 0 self w of (ok, self1, w1) \<Rightarrow>
            ok \<and> tasks self1 = [B, C] \<and>
            (case complete_task 0 self1 w1 of (ok', self2, w2) \<Rightarrow>
               ok' \<and> tasks self2 = [B\<lparr>completed := PBool True\<rparr>, C]))"
  using assms by (simp add: delete_task_def complete_task_def Let_def)

theorem delete_shifts_then_complete_witness:
  "(case delete_task 0
      \<lparr>filename = ''todo.json'', tasks =
        [\<lparr>title = PStr ''A'', description = PStr '''', created_date = PStr ''d1'',
          due_date = PNone, completed = PBool False\<rparr>,
         \<lparr>title = PStr ''B'', description = PStr '''', created_date = PStr ''d2'',
          due_date = PNone, completed = PBool False\<rparr>,
         \<lparr>title = PStr ''C'', description = PStr '''', created_date = PStr ''d3'',
          due_date = PNone, completed = PBool False\<rparr>]\<rparr>
      \<lparr>files = Map.empty, stdout = [], clock = ''d4''\<rparr> of
    (ok, self1, w1) \<Rightarrow>
      ok \<and>
      tasks self1 =
        [\<lparr>title = PStr ''B'', description = PStr '''', created_date = PStr ''d2'',
          due_date = PNone, completed = PBool False\<rparr>,
         \<lparr>title = PStr ''C'', description = PStr '''', created_date = PStr ''d3'',
          due_date = PNone, completed = PBool False\<rparr>] \<and>
      (case complete_task 0 self1 w1 of (ok', self2, w2) \<Rightarrow>
         ok' \<and>
         tasks self2 =
           [\<lparr>title = PStr ''B'', description = PStr '''', created_date = PStr ''d2'',
             due_date = PNone, completed = PBool True\<rparr>,
            \<lparr>title = PStr ''C'', description = PStr '''', created_date = PStr ''d3'',
             due_date = PNone, completed = PBool False\<rparr>]))"
proof -
  define A where "A = \<lparr>title = PStr ''A'', description = PStr '''', created_date = PStr ''d1'',
          due_date = PNone, completed = PBool False\<rparr>"
  define B where "B = \<lparr>title = PStr ''B'', description = PStr '''', created_date = PStr ''d2'',
          due_date = PNone, completed = PBool False\<rparr>"
  define C where "C = \<lparr>title = PStr ''C'', description = PStr '''', created_date = PStr ''d3'',
          due_date = PNone, completed = PBool False\<rparr>"
  define self where "self = \<lparr>filename = ''todo.json'', tasks = [A, B, C]\<rparr>"
  define w where "w = \<lparr>files = Map.empty, stdout = [], clock = ''d4''\<rparr>"
  have "tasks self = [A, B, C]"
    by (simp add: self_def)
  from delete_shifts_then_complete [OF this, of w]
  have "(case delete_task 0 self w of (ok, self1, w1) \<Rightarrow>
            ok \<and> tasks self1 = [B, C] \<and>
            (case complete_task 0 self1 w1 of (ok', self2, w2) \<Rightarrow>
               ok' \<and> tasks self2 = [B\<lparr>completed := PBool True\<rparr>, C]))" .
  moreover have "B\<lparr>completed := PBool True\<rparr> =
      \<lparr>title = PStr ''B'', description = PStr '''', created_date = PStr ''d2'',
       due_date = PNone, completed = PBool True\<rparr>"
    by (simp add: B_def)
  ultimately show ?thesis
    unfolding self_def w_def A_def C_def by (simp only: B_def [symmetric])
qed

text \<open>
  Claim C7. With the index in range and each argument text or \<^verbatim>\<open>None\<close>, \<^verbatim>\<open>update_task\<close>
  returns \<^verbatim>\<open>True\<close>; the task at the index gets exactly the arguments that are neither
  \<^verbatim>\<open>None\<close> nor the empty string and keeps its other fields, \<^verbatim>\<open>created_date\<close> and
  \<^verbatim>\<open>completed\<close> among them; the other tasks and the length of the sequence stay. The empty
  string behaves as \<^verbatim>\<open>None\<close> in each position, so a title or description that is not empty
  is not empty afterwards.
\<close>

theorem update_overwrites_supplied_fields:
  assumes "0 \<le> index" and "index < int (length (tasks self))"
    and "text_or_absent a" and "text_or_absent b" and "text_or_absent c"
  shows "(case update_task index a b c self w of (ok, self', w') \<Rightarrow>
      ok \<and> filename self' = filename self \<and>
      length (tasks self') = length (tasks self) \<and>
      (\<forall>j. j < length (tasks self) \<and> j \<noteq> nat index \<longrightarrow> tasks self' ! j = tasks self ! j) \<and>
      title (tasks self' ! nat index) =
        (if a = PNone \<or> a = PStr '''' then title (tasks self ! nat index) else a) \<and>
      description (tasks self' ! nat index) =
        (if b = PNone \<or> b = PStr '''' then description (tasks self ! nat index) else b) \<and>
      due_date (tasks self' ! nat index) =
        (if c = PNone \<or> c = PStr '''' then due_date (tasks self ! nat index) else c) \<and>
      created_date (tasks self' ! nat index) = created_date (tasks self ! nat index) \<and>
      completed (tasks self' ! nat index) = completed (tasks self ! nat index) \<and>
      (title (tasks self ! nat index) \<noteq> PStr '''' \<longrightarrow>
         title (tasks self' ! nat index) \<noteq> PStr '''') \<and>
      (description (tasks self ! nat index) \<noteq> PStr '''' \<longrightarrow>
         description (tasks self' ! nat index) \<noteq> PStr '''')) \<and>
    update_task index (PStr '''') b c self w = update_task index PNone b c self w \<and>
    update_task index a (PStr '''') c self w = update_task index a PNone c self w \<and>
    update_task index a b (PStr '''') self w = update_task index a b PNone self w"
proof -
  from assms(1,2) have n: "nat index < length (tasks self)"
    by simp
  have e: "update_task index (PStr '''') b c self w = update_task index PNone b c self w"
    "update_task index a (PStr '''') c self w = update_task index a PNone c self w"
    "update_task index a b (PStr '''') self w = update_task index a b PNone self w"
    by (simp_all add: update_task_def)
  have "case update_task index a b c self w of (ok, self', w') \<Rightarrow>
      ok \<and> filename self' = filename self \<and>
      length (tasks self') = length (tasks self) \<and>
      (\<forall>j. j < length (tasks self) \<and> j \<noteq> nat index \<longrightarrow> tasks self' ! j = tasks self ! j) \<and>
      title (tasks self' ! nat index) =
        (if a = PNone \<or> a = PStr '''' then title (tasks self ! nat index) else a) \<and>
      description (tasks self' ! nat index) =
        (if b = PNone \<or> b = PStr '''' then description (tasks self ! nat index) else b) \<and>
      due_date (tasks self' ! nat index) =
        (if c = PNone \<or> c = PStr '''' then due_date (tasks self ! nat index) else c) \<and>
      created_date (tasks self' ! nat index) = created_date (tasks self ! nat index) \<and>
      completed (tasks self' ! nat index) = completed (tasks self ! nat index) \<and>
      (title (tasks self ! nat index) \<noteq> PStr '''' \<longrightarrow>
         title (tasks self' ! nat index) \<noteq> PStr '''') \<and>
      (description (tasks self ! nat index) \<noteq> PStr '''' \<longrightarrow>
         description (tasks self' ! nat index) \<noteq> PStr '''')"
    using assms(1,2) n
    by (simp add: update_task_def Let_def truthy_text_or_absent [OF assms(3)]
        truthy_text_or_absent [OF assms(4)] truthy_text_or_absent [OF assms(5)])
  with e show ?thesis
    by (simp only: simp_thms)
qed

theorem update_overwrites_supplied_fields_witness:
  "(case update_task 1 (PStr ''N'') (PStr '''') PNone
      \<lparr>filename = ''todo.json'', tasks =
        [\<lparr>title = PStr ''A'', description = PStr ''x'', created_date = PStr ''d1'',
          due_date = PNone, completed = PBool False\<rparr>,
         \<lparr>title = PStr ''B'', description = PStr ''y'', created_date = PStr ''d2'',
          due_date = PStr ''d9'', completed = PBool True\<rparr>]\<rparr>
      \<lparr>files = Map.empty, stdout = [], clock = ''d4''\<rparr> of
    (ok, self', w') \<Rightarrow>
      ok \<and>
      tasks self' =
        [\<lparr>title = PStr ''A'', description = PStr ''x'', created_date = PStr ''d1'',
          due_date = PNone, completed = PBool False\<rparr>,
         \<lparr>title = PStr ''N'', description = PStr ''y'', created_date = PStr ''d2'',
          due_date = PStr ''d9'', completed = PBool True\<rparr>])"
  using update_overwrites_supplied_fields [of 1
      "\<lparr>filename = ''todo.json'', tasks =
        [\<lparr>title = PStr ''A'', description = PStr ''x'', created_date = PStr ''d1'',
          due_date = PNone, completed = PBool False\<rparr>,
         \<lparr>title = PStr ''B'', description = PStr ''y'', created_date = PStr ''d2'',
          due_date = PStr ''d9'', completed = PBool True\<rparr>]\<rparr>"
      "PStr ''N''" "PStr ''''" PNone
      "\<lparr>files = Map.empty, stdout = [], clock = ''d4''\<rparr>"]
  by (simp add: update_task_def Let_def)

section \<open>Listing\<close>

text \<open>
  Claim C8. \<^verbatim>\<open>get_tasks(True)\<close> is the whole sequence. \<^verbatim>\<open>get_tasks(False)\<close> keeps, in their
  order and unchanged, exactly the tasks whose \<^verbatim>\<open>completed\<close> is falsy, which for boolean
  flags are the tasks whose flag is \<^verbatim>\<open>False\<close>; with the flags true, false, true it is the
  one task at index 1. The method reads the object and returns a list: it has no access
  to the world and returns no new object.
\<close>

theorem get_tasks_partition:
  "get_tasks self True = tasks self \<and>
   get_tasks self False = filter (\<lambda>t. \<not> truthy (completed t)) (tasks self) \<and>
   subseq (get_tasks self False) (tasks self) \<and>
   (\<forall>t. t \<in> set (get_tasks self False) \<longleftrightarrow>
        t \<in> set (tasks self) \<and> \<not> truthy (completed t)) \<and>
   (list_all (\<lambda>t. completed t = PBool True \<or> completed t = PBool False) (tasks self) \<longrightarrow>
      get_tasks self False = filter (\<lambda>t. completed t = PBool False) (tasks self)) \<and>
   (tasks self = [A, B, C] \<and> completed A = PBool True \<and> completed B = PBool False \<and>
    completed C = PBool True \<longrightarrow> get_tasks self False = [B])"
proof -
  have "list_all (\<lambda>t. completed t = PBool True \<or> completed t = PBool False) ts \<Longrightarrow>
      filter (\<lambda>t. \<not> truthy (completed t)) ts = filter (\<lambda>t. completed t = PBool False) ts"
    for ts :: "task list"
    by (induction ts) auto
  then show ?thesis
    by (auto simp add: get_tasks_def)
qed

theorem get_tasks_partition_witness:
  "get_tasks
     \<lparr>filename = ''todo.json'', tasks =
        [\<lparr>title = PStr ''A'', description = PStr ''x'', created_date = PStr ''d1'',
          due_date = PNone, completed = PBool True\<rparr>,
         \<lparr>title = PStr ''B'', description = PStr ''y'', created_date = PStr ''d2'',
          due_date = PStr ''d9'', completed = PBool False\<rparr>,
         \<lparr>title = PStr ''C'', description = PStr ''z'', created_date = PStr ''d3'',
          due_date = PNone, completed = PBool True\<rparr>]\<rparr> False =
     [\<lparr>title = PStr ''B'', description = PStr ''y'', created_date = PStr ''d2'',
       due_date = PStr ''d9'', completed = PBool False\<rparr>]"
  using get_tasks_partition [of
      "\<lparr>filename = ''todo.json'', tasks =
        [\<lparr>title = PStr ''A'', description = PStr ''x'', created_date = PStr ''d1'',
          due_date = PNone, completed = PBool True\<rparr>,
         \<lparr>title = PStr ''B'', description = PStr ''y'', created_date = PStr ''d2'',
          due_date = PStr ''d9'', completed = PBool False\<rparr>,
         \<lparr>title = PStr ''C'', description = PStr ''z'', created_date = PStr ''d3'',
          due_date = PNone, completed = PBool True\<rparr>]\<rparr>"
      "\<lparr>title = PStr ''A'', description = PStr ''x'', created_date = PStr ''d1'',
          due_date = PNone, completed = PBool True\<rparr>"
      "\<lparr>title = PStr ''B'', description = PStr ''y'', created_date = PStr ''d2'',
          due_date = PStr ''d9'', completed = PBool False\<rparr>"
      "\<lparr>title = PStr ''C'', description = PStr ''z'', created_date = PStr ''d3'',
          due_date = PNone, completed = PBool True\<rparr>"]
  by simp

section \<open>Persistence\<close>

lemma in_sync_written:
  assumes "filename s = f" and "tasks s = ts"
  shows "in_sync s (w\<lparr>files := (files w)(f \<mapsto> saved ts)\<rparr>)"
  using assms by (simp add: in_sync_def)

lemma load_written:
  assumes "filename s = f" and "tasks s = ts"
  shows "load_tasks s (w\<lparr>files := (files w)(f \<mapsto> saved ts)\<rparr>) =
    (Inr s, w\<lparr>files := (files w)(f \<mapsto> saved ts)\<rparr>)"
  by (rule in_sync_load) (rule in_sync_written [OF assms])

text \<open>
  Claim C9. \<^verbatim>\<open>add_task\<close> always succeeds, and \<^verbatim>\<open>complete_task\<close>, \<^verbatim>\<open>delete_task\<close> and
  \<^verbatim>\<open>update_task\<close> return \<^verbatim>\<open>True\<close> exactly when the index is in range. A successful call
  leaves a world that differs from the old one in the backing file only, which now holds
  the dictionaries of the whole new sequence in order: file and object are in sync, and
  loading the file gives the object back. A call that returns \<^verbatim>\<open>False\<close> leaves the object
  and the world as they were: nothing was written. No call changes the name of the
  backing file.
\<close>

theorem mutations_rewrite_backing_file:
  "(case add_task a b c self w of (t, self', w') \<Rightarrow>
      filename self' = filename self \<and> tasks self' = tasks self @ [t] \<and>
      w' = w\<lparr>files := (files w)(filename self' \<mapsto> saved (tasks self'))\<rparr> \<and>
      in_sync self' w' \<and> load_tasks self' w' = (Inr self', w')) \<and>
   (case complete_task i self w of (ok, self', w') \<Rightarrow>
      (ok \<longleftrightarrow> 0 \<le> i \<and> i < int (length (tasks self))) \<and>
      filename self' = filename self \<and>
      (ok \<longrightarrow> w' = w\<lparr>files := (files w)(filename self' \<mapsto> saved (tasks self'))\<rparr> \<and>
         in_sync self' w' \<and> load_tasks self' w' = (Inr self', w')) \<and>
      (\<not> ok \<longrightarrow> w' = w \<and> self' = self)) \<and>
   (case delete_task i self w of (ok, self', w') \<Rightarrow>
      (ok \<longleftrightarrow> 0 \<le> i \<and> i < int (length (tasks self))) \<and>
      filename self' = filename self \<and>
      (ok \<longrightarrow> w' = w\<lparr>files := (files w)(filename self' \<mapsto> saved (tasks self'))\<rparr> \<and>
         in_sync self' w' \<and> load_tasks self' w' = (Inr self', w')) \<and>
      (\<not> ok \<longrightarrow> w' = w \<and> self' = self)) \<and>
   (case update_task i a b c self w of (ok, self', w') \<Rightarrow>
      (ok \<longleftrightarrow> 0 \<le> i \<and> i < int (length (tasks self))) \<and>
      filename self' = filename self \<and>
      (ok \<longrightarrow> w' = w\<lparr>files := (files w)(filename self' \<mapsto> saved (tasks self'))\<rparr> \<and>
         in_sync self' w' \<and> load_tasks self' w' = (Inr self', w')) \<and>
      (\<not> ok \<longrightarrow> w' = w \<and> self' = self))"
  by (simp add: add_task_def complete_task_def delete_task_def update_task_def Let_def
      save_tasks_saved in_sync_written load_written)

theorem mutations_rewrite_backing_file_witness:
  "(case add_task (PStr ''B'') (PStr '''') PNone
      \<lparr>filename = ''todo.json'', tasks =
        [\<lparr>title = PStr ''A'', description = PStr ''x'', created_date = PStr ''d1'',
          due_date = PNone, completed = PBool False\<rparr>]\<rparr>
      \<lparr>files = Map.empty, stdout = [], clock = ''d4''\<rparr> of
    (t, self', w') \<Rightarrow>
      files w' ''todo.json'' =
        Some (Json (PList
          [PDict [(''title'', PStr ''A''), (''description'', PStr ''x''),
                  (''created_date'', PStr ''d1''), (''due_date'', PNone),
                  (''completed'', PBool False)],
           PDict [(''title'', PStr ''B''), (''description'', PStr ''''),
                  (''created_date'', PStr ''d4''), (''due_date'', PNone),
                  (''completed'', PBool False)]]))) \<and>
   (case complete_task 0
      \<lparr>filename = ''todo.json'', tasks =
        [\<lparr>title = PStr ''A'', description = PStr ''x'', created_date = PStr ''d1'',
          due_date = PNone, completed = PBool False\<rparr>]\<rparr>
      \<lparr>files = Map.empty, stdout = [], clock = ''d4''\<rparr> of
    (ok, self', w') \<Rightarrow>
      ok \<and>
      files w' ''todo.json'' =
        Some (Json (PList
          [PDict [(''title'', PStr ''A''), (''description'', PStr ''x''),
                  (''created_date'', PStr ''d1''), (''due_date'', PNone),
                  (''completed'', PBool True)]]))) \<and>
   (case delete_task 0
      \<lparr>filename = ''todo.json'', tasks =
        [\<lparr>title = PStr ''A'', description = PStr ''x'', created_date = PStr ''d1'',
          due_date = PNone, completed = PBool False\<rparr>]\<rparr>
      \<lparr>files = Map.empty, stdout = [], clock = ''d4''\<rparr> of
    (ok, self', w') \<Rightarrow>
      ok \<and> files w' ''todo.json'' = Some (Json (PList []))) \<and>
   (case update_task 0 (PStr ''N'') PNone (PStr ''d9'')
      \<lparr>filename = ''todo.json'', tasks =
        [\<lparr>title = PStr ''A'', description = PStr ''x'', created_date = PStr ''d1'',
          due_date = PNone, completed = PBool False\<rparr>]\<rparr>
      \<lparr>files = Map.empty, stdout = [], clock = ''d4''\<rparr> of
    (ok, self', w') \<Rightarrow>
      ok \<and>
      files w' ''todo.json'' =
        Some (Json (PList
          [PDict [(''title'', PStr ''N''), (''description'', PStr ''x''),
                  (''created_date'', PStr ''d1''), (''due_date'', PStr ''d9''),
                  (''completed'', PBool False)]]))) \<and>
   (case complete_task 1
      \<lparr>filename = ''todo.json'', tasks =
        [\<lparr>title = PStr ''A'', description = PStr ''x'', created_date = PStr ''d1'',
          due_date = PNone, completed = PBool False\<rparr>]\<rparr>
      \<lparr>files = Map.empty, stdout = [], clock = ''d4''\<rparr> of
    (ok, self', w') \<Rightarrow>
      \<not> ok \<and> w' = \<lparr>files = Map.empty, stdout = [], clock = ''d4''\<rparr>) \<and>
   (case delete_task (- 1)
      \<lparr>filename = ''todo.json'', tasks =
        [\<lparr>title = PStr ''A'', description = PStr ''x'', created_date = PStr ''d1'',
          due_date = PNone, completed = PBool False\<rparr>]\<rparr>
      \<lparr>files = Map.empty, stdout = [], clock = ''d4''\<rparr> of
    (ok, self', w') \<Rightarrow>
      \<not> ok \<and> w' = \<lparr>files = Map.empty, stdout = [], clock = ''d4''\<rparr>) \<and>
   (case update_task 1 (PStr ''N'') PNone (PStr ''d9'')
      \<lparr>filename = ''todo.json'', tasks =
        [\<lparr>title = PStr ''A'', description = PStr ''x'', created_date = PStr ''d1'',
          due_date = PNone, completed = PBool False\<rparr>]\<rparr>
      \<lparr>files = Map.empty, stdout = [], clock = ''d4''\<rparr> of
    (ok, self', w') \<Rightarrow>
      \<not> ok \<and> w' = \<lparr>files = Map.empty, stdout = [], clock = ''d4''\<rparr>)"
proof -
  define A where "A = \<lparr>title = PStr ''A'', description = PStr ''x'', created_date = PStr ''d1'',
          due_date = PNone, completed = PBool False\<rparr>"
  define self where "self = \<lparr>filename = ''todo.json'', tasks = [A]\<rparr>"
  define w where "w = \<lparr>files = Map.empty, stdout = [], clock = ''d4''\<rparr>"
  note inst = mutations_rewrite_backing_file [where self = self and w = w]
  have f: "filename self = ''todo.json''" and l: "length (tasks self) = 1"
    by (simp_all add: self_def)
  have add: "case add_task (PStr ''B'') (PStr '''') PNone self w of (t, self', w') \<Rightarrow>
      files w' ''todo.json'' = Some (saved (tasks self @ [t]))"
    using inst [where a = "PStr ''B''" and b = "PStr ''''" and c = PNone and i = 0]
    by (auto simp add: in_sync_def f split: prod.splits)
  have ok: "case complete_task 0 self w of (ok, self', w') \<Rightarrow>
        ok \<and> files w' ''todo.json'' = Some (saved (tasks self'))"
    "case delete_task 0 self w of (ok, self', w') \<Rightarrow>
        ok \<and> files w' ''todo.json'' = Some (saved (tasks self'))"
    "case update_task 0 (PStr ''N'') PNone (PStr ''d9'') self w of (ok, self', w') \<Rightarrow>
        ok \<and> files w' ''todo.json'' = Some (saved (tasks self'))"
    using inst [where a = "PStr ''N''" and b = PNone and c = "PStr ''d9''" and i = 0]
    by (auto simp add: in_sync_def f l split: prod.splits)
  have no: "case complete_task 1 self w of (ok, self', w') \<Rightarrow> \<not> ok \<and> w' = w"
    "case update_task 1 (PStr ''N'') PNone (PStr ''d9'') self w of (ok, self', w') \<Rightarrow>
        \<not> ok \<and> w' = w"
    using inst [where a = "PStr ''N''" and b = PNone and c = "PStr ''d9''" and i = 1]
    by (auto simp add: l split: prod.splits)
  have no': "case delete_task (- 1) self w of (ok, self', w') \<Rightarrow> \<not> ok \<and> w' = w"
    using inst [where a = PNone and b = PNone and c = PNone and i = "- 1"]
    by (auto simp add: l split: prod.splits)
  from add ok no no' show ?thesis
    unfolding self_def w_def A_def
    by (simp add: add_task_def complete_task_def delete_task_def update_task_def Let_def
        save_tasks_def saved_def to_dict_def Task_init_def)
qed



end
